theory Spec2Isabelle
  imports Complex_Main "HOL-Library.Word"
begin

section \<open>The chat controller: document ingestion and question answering\<close>

text \<open>
  The two request handlers of \<^verbatim>\<open>Controllers/chatController.js\<close>, \<^verbatim>\<open>questionAnswer\<close>
  and \<^verbatim>\<open>uploadDoc\<close>, are embedded as functions on an explicit state. The state holds
  the local disk and the trace of calls that leave the handler (file system, loaders,
  embedding provider, vector store, generative model). What the external services answer
  is not code of the controller: every such answer is a field of a \<open>world\<close> record, and
  a theorem stated for a world \<open>w\<close> holds whatever the services answer. A rejected
  promise, a throwing constructor and the handler's own \<^verbatim>\<open>throw\<close> are values of the
  type \<open>error\<close>; the \<^verbatim>\<open>try\<close> body of a handler returns \<open>error + response\<close> and the
  \<^verbatim>\<open>catch\<close> block turns the error into the 500 response.

  Calls to the logger and to \<^verbatim>\<open>console.log\<close> have no effect that the handlers read back
  and are left out.
\<close>

subsection \<open>Values\<close>

type_synonym path = string
type_synonym buffer = "8 word list"
type_synonym vector = "real list"

text \<open>
  A caught JavaScript error, by where it was raised: \<open>Thrown\<close> is the handler's own
  \<^verbatim>\<open>throw new Error(msg)\<close>, \<open>Rejected\<close> an error coming out of a call to a library or
  provider, \<open>TypeError\<close> a property read on \<^verbatim>\<open>undefined\<close>, \<open>SystemError\<close> a failing
  \<^verbatim>\<open>fs\<close> call. The \<^verbatim>\<open>catch\<close> blocks read \<^verbatim>\<open>error.message\<close> only.
\<close>

datatype error = Thrown string | Rejected string | TypeError string | SystemError string

fun message :: "error \<Rightarrow> string" where
  "message (Thrown m) = m"
| "message (Rejected m) = m"
| "message (TypeError m) = m"
| "message (SystemError m) = m"

text \<open>The values that occur in the JSON bodies of the responses.\<close>

datatype json = JString string | JNumber nat

record response =
  status :: nat
  body :: "(string \<times> json) list"

text \<open>\<^verbatim>\<open>req.file\<close> as the upload middleware delivers it (absent when no file was sent).\<close>

record uploaded_file =
  originalname :: string
  mimetype :: string
  buffer :: buffer

record upload_req =
  req_file :: "uploaded_file option"

text \<open>
  \<^verbatim>\<open>req.body\<close> is the parsed JSON object; \<open>body_question\<close> is its \<^verbatim>\<open>question\<close> member,
  \<open>None\<close> when the member is missing. The contract of the route is a string member;
  other JSON types at \<^verbatim>\<open>question\<close> are not modelled.
\<close>

record query_req =
  body_question :: "string option"

record document =
  pageContent :: string
  doc_metadata :: "(string \<times> string) list"

text \<open>
  A match of a raw index query. \<open>match_metadata\<close> is \<open>None\<close> when the record was stored
  without metadata (the member is then \<^verbatim>\<open>undefined\<close>).
\<close>

record match =
  match_id :: string
  match_score :: real
  match_values :: vector
  match_metadata :: "(string \<times> string) list option"

subsection \<open>Client handles\<close>

record embeddings_client =
  emb_apiKey :: "string option"
  emb_modelName :: string

text \<open>
  An index handle targets one namespace of the index. \<^verbatim>\<open>pinecone.Index(name)\<close> gives the
  handle of the default namespace, the empty string.
\<close>

record pinecone_index =
  pc_apiKey :: "string option"
  index_name :: string
  index_namespace :: string

record vector_store =
  vs_embeddings :: embeddings_client
  vs_index :: pinecone_index
  vs_namespace :: "string option"

record generative_model =
  gm_apiKey :: "string option"
  gm_model :: string

record query_request =
  q_vector :: vector
  q_topK :: nat
  q_includeMetadata :: bool
  q_includeValues :: bool

datatype loader_kind = PDFLoader | DocxLoader

subsection \<open>The trace of outgoing calls and the state\<close>

datatype event =
    Mkdir path
  | WriteFile path buffer
  | Unlink path
  | LoaderLoad loader_kind path
  | DescribeIndexStats pinecone_index
  | EmbedQuery embeddings_client string
  | SimilaritySearch vector_store string nat
  | IndexQuery pinecone_index query_request
  | FromDocuments "document list" vector_store
  | GenerateContent generative_model string

record state =
  files :: "path \<Rightarrow> buffer option"
  dirs :: "path set"
  trace :: "event list"

text \<open>
  The environment of the process and the answers of everything the controller calls.
  \<open>env\<close> is \<^verbatim>\<open>process.env\<close>, \<open>dirname\<close> is \<^verbatim>\<open>__dirname\<close>, \<open>path_join\<close> is \<^verbatim>\<open>path.join\<close> of the
  host platform. \<open>fsRefuses p\<close> is the error with which the file system turns down the
  path \<open>p\<close> whatever is on the disk (a file name longer than it allows, for one), \<open>None\<close>
  when it accepts the path. A constructor answers \<open>Some e\<close> when it throws \<open>e\<close>;
  \<open>newPinecone\<close> and \<open>newGenAI\<close> are the constructors of the two clients of the module,
  given the API key found in the environment. The two loaders parse the content of the
  staged file; the splitter is the library's \<^verbatim>\<open>RecursiveCharacterTextSplitter\<close> with the
  chunk size and overlap it is given. \<open>fromDocuments\<close> embeds the chunks and upserts
  them.
\<close>

record world =
  env :: "string \<Rightarrow> string option"
  dirname :: path
  path_join :: "path \<Rightarrow> string \<Rightarrow> path"
  fsRefuses :: "path \<Rightarrow> error option"
  newPinecone :: "string option \<Rightarrow> error option"
  newGenAI :: "string option \<Rightarrow> error option"
  newEmbeddings :: "embeddings_client \<Rightarrow> error option"
  describeIndexStats :: "pinecone_index \<Rightarrow> error + string"
  fromExistingIndex :: "vector_store \<Rightarrow> error option"
  embedQuery :: "embeddings_client \<Rightarrow> string \<Rightarrow> error + vector"
  similaritySearch :: "vector_store \<Rightarrow> string \<Rightarrow> nat \<Rightarrow> error + document list"
  indexQuery :: "pinecone_index \<Rightarrow> query_request \<Rightarrow> error + match list"
  generateContent :: "generative_model \<Rightarrow> string \<Rightarrow> error + string"
  loaderParse :: "loader_kind \<Rightarrow> buffer \<Rightarrow> error + document list"
  splitDocuments :: "nat \<Rightarrow> nat \<Rightarrow> document list \<Rightarrow> error + document list"
  fromDocuments :: "document list \<Rightarrow> vector_store \<Rightarrow> error + unit"

subsection \<open>Sequencing inside a \<^verbatim>\<open>try\<close> block\<close>

type_synonym 'a step = "state \<Rightarrow> (error + 'a) \<times> state"

definition ret :: "'a \<Rightarrow> 'a step" where
  "ret v s = (Inr v, s)"

definition throw :: "error \<Rightarrow> 'a step" where
  "throw e s = (Inl e, s)"

text \<open>Run \<open>m\<close>; an error leaves the block at once, a value goes on into \<open>f\<close>.\<close>

definition bind_try :: "'a step \<Rightarrow> ('a \<Rightarrow> 'b step) \<Rightarrow> 'b step" where
  "bind_try m f s = (case m s of (Inl e, s') \<Rightarrow> (Inl e, s') | (Inr v, s') \<Rightarrow> f v s')"

text \<open>An awaited call: it is recorded in the trace, then it resolves or rejects.\<close>

definition await :: "event \<Rightarrow> error + 'a \<Rightarrow> 'a step" where
  "await ev r s = (r, s\<lparr>trace := trace s @ [ev]\<rparr>)"

definition construct :: "error option \<Rightarrow> unit step" where
  "construct r s = (case r of None \<Rightarrow> (Inr (), s) | Some e \<Rightarrow> (Inl e, s))"

subsection \<open>The file system calls\<close>

text \<open>
  The disk is a map from paths to file contents and a set of directories.

  \<^verbatim>\<open>writeFileSync\<close> is called with a path that ends in the file name the client chose.
  When the file system turns the path down, the call throws; such a path names no file,
  before the call or after it. Otherwise the call creates or replaces the file at the
  path. The call is recorded in the trace in both cases.

  \<^verbatim>\<open>mkdirSync\<close> is only ever called on the uploads directory, a path fixed by the
  deployment and not by the request. That this call fails, or that a write to an accepted
  path fails, is a fault of the host (permissions, a full disk) and outside the model.
  \<^verbatim>\<open>unlinkSync\<close> throws when there is no file at the path.
\<close>

definition existsSync :: "path \<Rightarrow> state \<Rightarrow> bool" where
  "existsSync p s = (p \<in> dirs s \<or> files s p \<noteq> None)"

definition mkdirSync :: "path \<Rightarrow> unit step" where
  "mkdirSync p s = (Inr (), s\<lparr>dirs := insert p (dirs s), trace := trace s @ [Mkdir p]\<rparr>)"

definition writeFileSync :: "world \<Rightarrow> path \<Rightarrow> buffer \<Rightarrow> unit step" where
  "writeFileSync w p b s =
     (case fsRefuses w p of
        Some e \<Rightarrow> (Inl e, s\<lparr>files := (files s)(p := None), trace := trace s @ [WriteFile p b]\<rparr>)
      | None \<Rightarrow> (Inr (), s\<lparr>files := (files s)(p := Some b), trace := trace s @ [WriteFile p b]\<rparr>))"

definition unlinkSync :: "path \<Rightarrow> unit step" where
  "unlinkSync p s =
     (case files s p of
        None \<Rightarrow> (Inl (SystemError ''ENOENT: no such file or directory''), s\<lparr>trace := trace s @ [Unlink p]\<rparr>)
      | Some b \<Rightarrow> (Inr (), s\<lparr>files := (files s)(p := None), trace := trace s @ [Unlink p]\<rparr>))"

text \<open>\<^verbatim>\<open>loader.load()\<close> reads the file at the path and parses its content.\<close>

definition loader_load :: "world \<Rightarrow> loader_kind \<Rightarrow> path \<Rightarrow> document list step" where
  "loader_load w k p s =
     (case files s p of
        None \<Rightarrow> (Inl (SystemError ''ENOENT: no such file or directory''), s\<lparr>trace := trace s @ [LoaderLoad k p]\<rparr>)
      | Some b \<Rightarrow> (loaderParse w k b, s\<lparr>trace := trace s @ [LoaderLoad k p]\<rparr>))"

subsection \<open>Small pieces of JavaScript\<close>

text \<open>\<^verbatim>\<open>!x\<close> on a string that may be missing: true for \<^verbatim>\<open>undefined\<close> and for the empty string.\<close>

fun js_not :: "string option \<Rightarrow> bool" where
  "js_not None = True"
| "js_not (Some x) = (x = [])"

fun js_str :: "string option \<Rightarrow> string" where
  "js_str None = []"
| "js_str (Some x) = x"

text \<open>\<^verbatim>\<open>Array.prototype.join\<close>: an \<^verbatim>\<open>undefined\<close> element contributes the empty string.\<close>

fun js_join :: "string \<Rightarrow> string option list \<Rightarrow> string" where
  "js_join sep [] = []"
| "js_join sep [x] = js_str x"
| "js_join sep (x # y # ys) = js_str x @ sep @ js_join sep (y # ys)"

definition nl :: string where
  "nl = [CHR 0x0A]"

text \<open>
  \<^verbatim>\<open>queryResponse.matches.map(match => ({ pageContent: match.metadata.pageContent }))\<close>:
  the list of the \<^verbatim>\<open>pageContent\<close> members; reading the member of a missing metadata
  object throws.
\<close>

fun match_pageContents :: "match list \<Rightarrow> error + string option list" where
  "match_pageContents [] = Inr []"
| "match_pageContents (m # ms) =
     (case match_metadata m of
        None \<Rightarrow> Inl (TypeError ''Cannot read properties of undefined (reading 'pageContent')'')
      | Some md \<Rightarrow>
          (case match_pageContents ms of
             Inl e \<Rightarrow> Inl e
           | Inr ds \<Rightarrow> Inr (map_of md ''pageContent'' # ds)))"


definition pinecone_Index :: "world \<Rightarrow> string \<Rightarrow> pinecone_index" where
  "pinecone_Index w name =
     \<lparr>pc_apiKey = env w ''PINECONE_API_KEY'', index_name = name, index_namespace = []\<rparr>"

definition GoogleGenerativeAIEmbeddings :: "world \<Rightarrow> string \<Rightarrow> embeddings_client" where
  "GoogleGenerativeAIEmbeddings w m = \<lparr>emb_apiKey = env w ''GEMINI_API_KEY'', emb_modelName = m\<rparr>"

definition PineconeStore :: "embeddings_client \<Rightarrow> pinecone_index \<Rightarrow> string option \<Rightarrow> vector_store" where
  "PineconeStore e i ns = \<lparr>vs_embeddings = e, vs_index = i, vs_namespace = ns\<rparr>"

definition getGenerativeModel :: "world \<Rightarrow> string \<Rightarrow> generative_model" where
  "getGenerativeModel w m = \<lparr>gm_apiKey = env w ''GEMINI_API_KEY'', gm_model = m\<rparr>"

definition no_documents_answer :: string where
  "no_documents_answer = ''Sorry, I couldn't find any relevant documents to answer your question.''"

definition make_prompt :: "string \<Rightarrow> string \<Rightarrow> string" where
  "make_prompt context question =
     nl @ ''    Context: '' @ context @ nl @ nl @
     ''    Question: '' @ question @ nl @ nl @
     ''    Please provide a concise and accurate answer to the question based on the given context. If the context doesn't contain enough information to answer the question, please state that.'' @
     nl @ ''    ''"

subsection \<open>\<^verbatim>\<open>questionAnswer\<close>\<close>

definition questionAnswer_try :: "world \<Rightarrow> query_req \<Rightarrow> response step" where
  "questionAnswer_try w req =
    (let question = body_question req;
         namespace = ''euler-namespace''
     in
     if js_not question then
       ret \<lparr>status = 400, body = [(''error'', JString ''No question provided'')]\<rparr>
     else
       let embeddings = GoogleGenerativeAIEmbeddings w ''models/embedding-001'' in
       bind_try (construct (newEmbeddings w embeddings)) (\<lambda>_.
       let indexName = env w ''PINECONE_INDEX_NAME'' in
       if js_not indexName then
         throw (Thrown ''PINECONE_INDEX_NAME is not set in environment variables'')
       else
         let pineconeIndex = pinecone_Index w (js_str indexName) in
         bind_try (await (DescribeIndexStats pineconeIndex)
                         (describeIndexStats w pineconeIndex)) (\<lambda>indexStats.
         let vectorStore = PineconeStore embeddings pineconeIndex
                             (if namespace \<noteq> [] then Some namespace else None)
         in
         bind_try (construct (fromExistingIndex w vectorStore)) (\<lambda>_.
         bind_try (await (EmbedQuery embeddings (js_str question))
                         (embedQuery w embeddings (js_str question))) (\<lambda>questionEmbedding.
         bind_try (await (SimilaritySearch vectorStore (js_str question) 3)
                         (similaritySearch w vectorStore (js_str question) 3)) (\<lambda>found.
         bind_try
           (if length found = 0 then
              let request = \<lparr>q_vector = questionEmbedding, q_topK = 10,
                              q_includeMetadata = True, q_includeValues = True\<rparr>
              in
              bind_try (await (IndexQuery pineconeIndex request)
                              (indexQuery w pineconeIndex request)) (\<lambda>matches.
              (\<lambda>s. (match_pageContents matches, s)))
            else ret (map (\<lambda>d. Some (pageContent d)) found)) (\<lambda>relevantDocs.
         if length relevantDocs = 0 then
           ret \<lparr>status = 200, body = [(''answer'', JString no_documents_answer)]\<rparr>
         else
           let context = js_join (nl @ nl) relevantDocs;
               model = getGenerativeModel w ''gemini-pro'';
               prompt = make_prompt context (js_str question)
           in
           bind_try (await (GenerateContent model prompt)
                           (generateContent w model prompt)) (\<lambda>answer.
           ret \<lparr>status = 200, body = [(''answer'', JString answer)]\<rparr>))))))))"

definition questionAnswer :: "world \<Rightarrow> query_req \<Rightarrow> state \<Rightarrow> response \<times> state" where
  "questionAnswer w req s =
     (case questionAnswer_try w req s of
        (Inr r, s') \<Rightarrow> (r, s')
      | (Inl e, s') \<Rightarrow>
          (\<lparr>status = 500,
            body = [(''error'', JString ''Error processing question''),
                    (''details'', JString (message e))]\<rparr>, s'))"

subsection \<open>\<^verbatim>\<open>uploadDoc\<close>\<close>

definition pdf_type :: string where
  "pdf_type = ''application/pdf''"

definition docx_type :: string where
  "docx_type = ''application/vnd.openxmlformats-officedocument.wordprocessingml.document''"

text \<open>
  The rest of the \<^verbatim>\<open>try\<close> block once the raw documents are loaded: split, build the
  clients, check the index name, embed and upsert under the namespace, delete the staged
  file, answer.
\<close>

definition uploadDoc_process :: "world \<Rightarrow> path \<Rightarrow> document list \<Rightarrow> response step" where
  "uploadDoc_process w tempFilePath rawDocs =
     bind_try (\<lambda>s. (splitDocuments w 1000 200 rawDocs, s)) (\<lambda>docs.
     let embeddings = GoogleGenerativeAIEmbeddings w ''models/embedding-001'' in
     bind_try (construct (newEmbeddings w embeddings)) (\<lambda>_.
     let indexName = env w ''PINECONE_INDEX_NAME'' in
     if js_not indexName then
       throw (Thrown ''PINECONE_INDEX_NAME is not set in environment variables'')
     else
       let pineconeIndex = pinecone_Index w (js_str indexName);
           vectorStore = PineconeStore embeddings pineconeIndex (Some ''euler-namespace'')
       in
       bind_try (await (FromDocuments docs vectorStore)
                       (fromDocuments w docs vectorStore)) (\<lambda>_.
       bind_try (unlinkSync tempFilePath) (\<lambda>_.
       ret \<lparr>status = 200,
            body = [(''status'', JString ''success''),
                    (''message'', JString ''Document processed and stored'')]\<rparr>))))"

text \<open>
  The \<^verbatim>\<open>try\<close> block of \<^verbatim>\<open>uploadDoc\<close>: the file is written to the uploads directory
  first, under its original name; the declared type is looked at after that.
\<close>

definition uploadDoc_try :: "world \<Rightarrow> upload_req \<Rightarrow> response step" where
  "uploadDoc_try w req =
    (case req_file req of
       None \<Rightarrow> ret \<lparr>status = 400, body = [(''error'', JString ''No file uploaded'')]\<rparr>
     | Some file \<Rightarrow>
       let fileType = mimetype file;
           uploadsDir = path_join w (dirname w) ''../uploads''
       in
       bind_try (\<lambda>s. if \<not> existsSync uploadsDir s then mkdirSync uploadsDir s else (Inr (), s)) (\<lambda>_.
       let tempFilePath = path_join w uploadsDir (originalname file) in
       bind_try (writeFileSync w tempFilePath (buffer file)) (\<lambda>_.
       if fileType = pdf_type then
         bind_try (loader_load w PDFLoader tempFilePath) (uploadDoc_process w tempFilePath)
       else if fileType = docx_type then
         bind_try (loader_load w DocxLoader tempFilePath) (uploadDoc_process w tempFilePath)
       else
         bind_try (unlinkSync tempFilePath) (\<lambda>_.
         ret \<lparr>status = 400,
              body = [(''error'', JString ''Invalid file type. Only PDF and DOCX are allowed.'')]\<rparr>))))"

definition uploadDoc :: "world \<Rightarrow> upload_req \<Rightarrow> state \<Rightarrow> response \<times> state" where
  "uploadDoc w req s =
     (case uploadDoc_try w req s of
        (Inr r, s') \<Rightarrow> (r, s')
      | (Inl e, s') \<Rightarrow>
          (\<lparr>status = 500,
            body = [(''error'', JString ''Error processing document''),
                    (''details'', JString (message e))]\<rparr>, s'))"

text \<open>
  The state after the call of \<^verbatim>\<open>writeFileSync\<close>: the uploads directory exists and the
  write of the file into it has been tried.
\<close>

definition staged :: "world \<Rightarrow> uploaded_file \<Rightarrow> state \<Rightarrow> state" where
  "staged w f s =
     (let uploadsDir = path_join w (dirname w) ''../uploads'';
          s1 = (if \<not> existsSync uploadsDir s then snd (mkdirSync uploadsDir s) else s)
      in snd (writeFileSync w (path_join w uploadsDir (originalname f)) (buffer f) s1))"

subsection \<open>Observing a run\<close>

text \<open>The calls a handler made: what it appended to the trace of the state it started in.\<close>

definition new_events :: "state \<Rightarrow> state \<Rightarrow> event list" where
  "new_events s s' = drop (length (trace s)) (trace s')"

text \<open>
  Which service a call goes to. A similarity search of the vector store embeds the
  query text first, and \<open>FromDocuments\<close> embeds the chunks before it upserts them.
\<close>

fun is_embedding_call :: "event \<Rightarrow> bool" where
  "is_embedding_call (EmbedQuery e q) = True"
| "is_embedding_call (SimilaritySearch vs q k) = True"
| "is_embedding_call (FromDocuments ds vs) = True"
| "is_embedding_call _ = False"

fun is_store_call :: "event \<Rightarrow> bool" where
  "is_store_call (DescribeIndexStats i) = True"
| "is_store_call (SimilaritySearch vs q k) = True"
| "is_store_call (IndexQuery i r) = True"
| "is_store_call (FromDocuments ds vs) = True"
| "is_store_call _ = False"

fun is_generation_call :: "event \<Rightarrow> bool" where
  "is_generation_call (GenerateContent m p) = True"
| "is_generation_call _ = False"

text \<open>
  The namespace that an upsert, a similarity search or a raw query works in: the
  namespace of the vector store (the default one when it has none), or the namespace of
  the index handle that is queried. Other calls have none.
\<close>

fun store_namespace :: "event \<Rightarrow> string option" where
  "store_namespace (SimilaritySearch vs q k) = Some (js_str (vs_namespace vs))"
| "store_namespace (FromDocuments ds vs) = Some (js_str (vs_namespace vs))"
| "store_namespace (IndexQuery i r) = Some (index_namespace i)"
| "store_namespace _ = None"

fun staged_writes :: "event list \<Rightarrow> (path \<times> buffer) list" where
  "staged_writes [] = []"
| "staged_writes (WriteFile p b # es) = (p, b) # staged_writes es"
| "staged_writes (e # es) = staged_writes es"


subsection \<open>A concrete world\<close>

text \<open>
  One deployment, for evaluating the handlers. The index holds one record, in the
  namespace \<^verbatim>\<open>euler-namespace\<close>, and a similarity search finds nothing. The file system
  turns down a file name of more than 255 characters. The constructor of the store client
  wants an API key; the constructor of the embeddings client wants one too and, given
  none, looks for \<^verbatim>\<open>GOOGLE_API_KEY\<close> in the environment; the constructor of the generation
  client takes what it is given, and the generative model turns down a request that comes
  without a key. The loaders reject an empty file and the splitter leaves short segments
  whole.
\<close>

definition demo_join :: "path \<Rightarrow> string \<Rightarrow> path" where
  "demo_join d n = (if n = ''../uploads'' then ''/srv/uploads'' else d @ ''/'' @ n)"

definition demo_refuses :: "path \<Rightarrow> error option" where
  "demo_refuses p =
     (if 255 < length (takeWhile (\<lambda>c. c \<noteq> CHR ''/'') (rev p))
      then Some (SystemError ''ENAMETOOLONG: name too long'') else None)"

definition demo_env :: "string \<Rightarrow> string option" where
  "demo_env =
     [''PINECONE_API_KEY'' \<mapsto> ''pc-key'', ''PINECONE_INDEX_NAME'' \<mapsto> ''euler'',
      ''GEMINI_API_KEY'' \<mapsto> ''g-key'']"

definition demo_match :: match where
  "demo_match =
     \<lparr>match_id = ''rec-1'', match_score = 1, match_values = [1, 0],
      match_metadata = Some [(''pageContent'', ''Euler was born in Basel.'')]\<rparr>"

definition demo_match2 :: match where
  "demo_match2 =
     \<lparr>match_id = ''rec-2'', match_score = 0, match_values = [0, 1],
      match_metadata = Some [(''pageContent'', ''He died in Saint Petersburg.'')]\<rparr>"

definition demo_docs :: "document list" where
  "demo_docs =
     [\<lparr>pageContent = ''Euler was born in Basel.'', doc_metadata = []\<rparr>,
      \<lparr>pageContent = ''He died in Saint Petersburg.'', doc_metadata = []\<rparr>]"

definition demo_world_of :: "(string \<Rightarrow> string option) \<Rightarrow> world" where
  "demo_world_of environment =
     \<lparr>env = environment, dirname = ''/srv/Controllers'', path_join = demo_join,
      fsRefuses = demo_refuses,
      newPinecone = (\<lambda>key. if js_not key
                             then Some (Rejected ''The client configuration must have required property: apiKey.'')
                             else None),
      newGenAI = (\<lambda>key. None),
      newEmbeddings = (\<lambda>e. if js_not (emb_apiKey e) \<and> js_not (environment ''GOOGLE_API_KEY'')
                             then Some (Rejected ''Please set an API key for Google GenerativeAI'')
                             else None),
      describeIndexStats = (\<lambda>i. Inr ''{}''),
      fromExistingIndex = (\<lambda>vs. None),
      embedQuery = (\<lambda>e q. Inr [1, 0]),
      similaritySearch = (\<lambda>vs q k. Inr []),
      indexQuery = (\<lambda>i r. if index_namespace i = ''euler-namespace'' then Inr [demo_match] else Inr []),
      generateContent = (\<lambda>m p. if js_not (gm_apiKey m)
                                 then Inl (Rejected ''API key not valid. Please pass a valid API key.'')
                                 else Inr ''In Basel.''),
      loaderParse = (\<lambda>k b. if b = [] then Inl (Rejected ''The file is empty'') else Inr demo_docs),
      splitDocuments = (\<lambda>size overlap ds. Inr ds),
      fromDocuments = (\<lambda>ds vs. Inr ())\<rparr>"

text \<open>The deployment with all three configuration values set.\<close>

definition demo_world :: world where
  "demo_world = demo_world_of demo_env"

definition empty_disk :: state where
  "empty_disk = \<lparr>files = (\<lambda>p. None), dirs = {}, trace = []\<rparr>"

definition demo_pdf :: uploaded_file where
  "demo_pdf = \<lparr>originalname = ''euler.pdf'', mimetype = ''application/pdf'',
               buffer = [0x25, 0x50, 0x44, 0x46]\<rparr>"

definition demo_txt :: uploaded_file where
  "demo_txt = \<lparr>originalname = ''notes.txt'', mimetype = ''text/plain'',
               buffer = [0x68, 0x69]\<rparr>"

text \<open>A text file whose name has 300 characters.\<close>

definition demo_long_name_txt :: uploaded_file where
  "demo_long_name_txt = \<lparr>originalname = replicate 300 CHR ''a'', mimetype = ''text/plain'',
                          buffer = [0x68, 0x69]\<rparr>"

definition demo_question :: query_req where
  "demo_question = \<lparr>body_question = Some ''Where was Euler born?''\<rparr>"

text \<open>The same deployment with two records, stored in the default namespace.\<close>

definition demo_world_default_ns :: world where
  "demo_world_default_ns =
     demo_world\<lparr>indexQuery :=
       (\<lambda>i r. if index_namespace i = [] then Inr [demo_match, demo_match2] else Inr [])\<rparr>"

text \<open>The same deployment with one record in the default namespace, stored without metadata.\<close>

definition demo_world_bare_record :: world where
  "demo_world_bare_record =
     demo_world\<lparr>indexQuery :=
       (\<lambda>i r. if index_namespace i = []
               then Inr [\<lparr>match_id = ''rec-0'', match_score = 1, match_values = [1, 0],
                          match_metadata = None\<rparr>]
               else Inr [])\<rparr>"

text \<open>
  The same deployment started without \<^verbatim>\<open>GEMINI_API_KEY\<close> and with \<^verbatim>\<open>GOOGLE_API_KEY\<close>, and
  with a similarity search that finds the stored chunks.
\<close>

definition demo_world_google_key :: world where
  "demo_world_google_key =
     (demo_world_of (demo_env(''GEMINI_API_KEY'' := None, ''GOOGLE_API_KEY'' \<mapsto> ''g-key'')))
       \<lparr>similaritySearch := (\<lambda>vs q k. Inr (take k demo_docs))\<rparr>"

text \<open>The same deployment started without \<^verbatim>\<open>GEMINI_API_KEY\<close> and without \<^verbatim>\<open>GOOGLE_API_KEY\<close>.\<close>

definition demo_world_no_gemini_key :: world where
  "demo_world_no_gemini_key = demo_world_of (demo_env(''GEMINI_API_KEY'' := None))"

text \<open>The same deployment started without \<^verbatim>\<open>PINECONE_API_KEY\<close>.\<close>

definition demo_world_no_pinecone_key :: world where
  "demo_world_no_pinecone_key = demo_world_of (demo_env(''PINECONE_API_KEY'' := None))"

text \<open>The same deployment started without \<^verbatim>\<open>PINECONE_INDEX_NAME\<close>.\<close>

definition demo_world_no_index_name :: world where
  "demo_world_no_index_name = demo_world_of (demo_env(''PINECONE_INDEX_NAME'' := None))"

section \<open>Properties of the handlers\<close>

subsection \<open>Unfolding and case lemmas\<close>

lemmas step_defs = bind_try_def ret_def throw_def await_def construct_def Let_def
lemmas fs_defs = existsSync_def mkdirSync_def writeFileSync_def unlinkSync_def loader_load_def
lemmas handle_defs = pinecone_Index_def PineconeStore_def GoogleGenerativeAIEmbeddings_def getGenerativeModel_def
lemmas demo_defs = demo_world_def demo_world_of_def demo_env_def demo_join_def demo_refuses_def
  demo_match_def demo_match2_def demo_docs_def
  empty_disk_def demo_pdf_def demo_txt_def demo_long_name_txt_def demo_question_def
  demo_world_default_ns_def demo_world_bare_record_def demo_world_google_key_def
  demo_world_no_gemini_key_def demo_world_no_pinecone_key_def demo_world_no_index_name_def
lemmas upload_defs = uploadDoc_def uploadDoc_try_def uploadDoc_process_def pdf_type_def docx_type_def
lemmas answer_defs = questionAnswer_def questionAnswer_try_def

lemma uploadDoc_process_cases:
  assumes "files s p = Some b"
  shows "(\<exists>e. uploadDoc_process w p raw s = (Inl e, s))
       \<or> (\<exists>e docs vs. uploadDoc_process w p raw s = (Inl e, s\<lparr>trace := trace s @ [FromDocuments docs vs]\<rparr>))
       \<or> (\<exists>docs vs. uploadDoc_process w p raw s =
            (Inr \<lparr>status = 200, body = [(''status'', JString ''success''),
                    (''message'', JString ''Document processed and stored'')]\<rparr>,
             s\<lparr>files := (files s)(p := None), trace := trace s @ [FromDocuments docs vs, Unlink p]\<rparr>))"
proof (cases "splitDocuments w 1000 200 raw")
  case (Inl e)
  then show ?thesis by (simp add: uploadDoc_process_def step_defs)
next
  case split: (Inr docs)
  show ?thesis
  proof (cases "newEmbeddings w (GoogleGenerativeAIEmbeddings w ''models/embedding-001'')")
    case (Some e)
    with split show ?thesis by (simp add: uploadDoc_process_def step_defs)
  next
    case emb: None
    show ?thesis
    proof (cases "js_not (env w ''PINECONE_INDEX_NAME'')")
      case True
      with split emb show ?thesis by (simp add: uploadDoc_process_def step_defs)
    next
      case name: False
      show ?thesis
      proof (cases "fromDocuments w docs (PineconeStore (GoogleGenerativeAIEmbeddings w ''models/embedding-001'')
           (pinecone_Index w (js_str (env w ''PINECONE_INDEX_NAME''))) (Some ''euler-namespace''))")
        case (Inl e)
        with split emb name show ?thesis
          by (auto simp add: uploadDoc_process_def step_defs)
      next
        case (Inr u)
        with split emb name assms show ?thesis
          by (auto simp add: uploadDoc_process_def step_defs unlinkSync_def)
      qed
    qed
  qed
qed


lemma load_process_cases:
  assumes "files s p = Some b"
  shows "(\<exists>e. bind_try (loader_load w k p) (uploadDoc_process w p) s =
            (Inl e, s\<lparr>trace := trace s @ [LoaderLoad k p]\<rparr>))
       \<or> (\<exists>e docs vs. bind_try (loader_load w k p) (uploadDoc_process w p) s =
            (Inl e, s\<lparr>trace := trace s @ [LoaderLoad k p, FromDocuments docs vs]\<rparr>))
       \<or> (\<exists>docs vs. bind_try (loader_load w k p) (uploadDoc_process w p) s =
            (Inr \<lparr>status = 200, body = [(''status'', JString ''success''),
                    (''message'', JString ''Document processed and stored'')]\<rparr>,
             s\<lparr>files := (files s)(p := None),
               trace := trace s @ [LoaderLoad k p, FromDocuments docs vs, Unlink p]\<rparr>))"
proof (cases "loaderParse w k b")
  case (Inl e)
  with assms show ?thesis by (simp add: bind_try_def loader_load_def)
next
  case (Inr raw)
  let ?s = "s\<lparr>trace := trace s @ [LoaderLoad k p]\<rparr>"
  have run: "bind_try (loader_load w k p) (uploadDoc_process w p) s = uploadDoc_process w p raw ?s"
    using assms Inr by (simp add: bind_try_def loader_load_def)
  have "files ?s p = Some b" using assms by simp
  from uploadDoc_process_cases[OF this, of w raw] show ?thesis
    unfolding run by auto
qed


lemma new_events_append [simp]: "new_events s (s'\<lparr>trace := trace s @ es\<rparr>) = es"
  by (simp add: new_events_def)

lemma uploadDoc_try_staged:
  assumes "req_file req = Some f"
  shows "uploadDoc_try w req s =
           (case fsRefuses w (path_join w (path_join w (dirname w) ''../uploads'') (originalname f)) of
              Some e \<Rightarrow> (Inl e, staged w f s)
            | None \<Rightarrow>
           (if mimetype f = pdf_type then
              bind_try (loader_load w PDFLoader (path_join w (path_join w (dirname w) ''../uploads'') (originalname f)))
                (uploadDoc_process w (path_join w (path_join w (dirname w) ''../uploads'') (originalname f)))
            else if mimetype f = docx_type then
              bind_try (loader_load w DocxLoader (path_join w (path_join w (dirname w) ''../uploads'') (originalname f)))
                (uploadDoc_process w (path_join w (path_join w (dirname w) ''../uploads'') (originalname f)))
            else
              bind_try (unlinkSync (path_join w (path_join w (dirname w) ''../uploads'') (originalname f))) (\<lambda>_.
              ret \<lparr>status = 400,
                   body = [(''error'', JString ''Invalid file type. Only PDF and DOCX are allowed.'')]\<rparr>))
           (staged w f s))"
  using assms
  by (simp add: uploadDoc_try_def staged_def bind_try_def mkdirSync_def writeFileSync_def Let_def
           split: option.splits)

lemma files_staged:
  "files (staged w f s) (path_join w (path_join w (dirname w) ''../uploads'') (originalname f)) =
     (case fsRefuses w (path_join w (path_join w (dirname w) ''../uploads'') (originalname f)) of
        Some e \<Rightarrow> None | None \<Rightarrow> Some (buffer f))"
  by (simp add: staged_def mkdirSync_def writeFileSync_def Let_def split: option.splits)

lemma trace_staged:
  "trace (staged w f s) =
     trace s @ (if existsSync (path_join w (dirname w) ''../uploads'') s then []
                else [Mkdir (path_join w (dirname w) ''../uploads'')]) @
     [WriteFile (path_join w (path_join w (dirname w) ''../uploads'') (originalname f)) (buffer f)]"
  by (simp add: staged_def mkdirSync_def writeFileSync_def Let_def split: option.splits)

text \<open>
  The exits of \<^verbatim>\<open>uploadDoc\<close> for a request with a file: one write to the staging path
  has been tried, and the staged file is on the disk afterwards exactly when the write
  was accepted and the handler left through the \<^verbatim>\<open>catch\<close> block.
\<close>

lemma uploadDoc_outcome:
  assumes "req_file req = Some f"
  shows "\<exists>pre tail.
           new_events s (snd (uploadDoc w req s)) =
             pre @ WriteFile (path_join w (path_join w (dirname w) ''../uploads'') (originalname f)) (buffer f) # tail
         \<and> staged_writes pre = [] \<and> staged_writes tail = []
         \<and> ((status (fst (uploadDoc w req s)) = 400
              \<and> files (snd (uploadDoc w req s))
                   (path_join w (path_join w (dirname w) ''../uploads'') (originalname f)) = None)
            \<or> (status (fst (uploadDoc w req s)) = 500
              \<and> fsRefuses w (path_join w (path_join w (dirname w) ''../uploads'') (originalname f)) = None
              \<and> files (snd (uploadDoc w req s))
                   (path_join w (path_join w (dirname w) ''../uploads'') (originalname f)) = Some (buffer f))
            \<or> (status (fst (uploadDoc w req s)) = 500
              \<and> fsRefuses w (path_join w (path_join w (dirname w) ''../uploads'') (originalname f)) \<noteq> None
              \<and> files (snd (uploadDoc w req s))
                   (path_join w (path_join w (dirname w) ''../uploads'') (originalname f)) = None)
            \<or> (fst (uploadDoc w req s) =
                  \<lparr>status = 200, body = [(''status'', JString ''success''),
                    (''message'', JString ''Document processed and stored'')]\<rparr>
              \<and> files (snd (uploadDoc w req s))
                   (path_join w (path_join w (dirname w) ''../uploads'') (originalname f)) = None
              \<and> (\<exists>docs vs. filter is_store_call (pre @ tail) = [FromDocuments docs vs])))"
proof -
  let ?p = "path_join w (path_join w (dirname w) ''../uploads'') (originalname f)"
  let ?u = "path_join w (dirname w) ''../uploads''"
  let ?pre = "if existsSync ?u s then [] else [Mkdir ?u]"
  let ?s2 = "staged w f s"
  note run = uploadDoc_try_staged[OF assms, of w s]
  note tr = trace_staged[of w f s]
  have pre: "staged_writes ?pre = []" "filter is_store_call ?pre = []" by simp_all
  show ?thesis
  proof (cases "fsRefuses w ?p")
    case (Some e)
    then have "uploadDoc w req s =
        (\<lparr>status = 500, body = [(''error'', JString ''Error processing document''),
                    (''details'', JString (message e))]\<rparr>,
         ?s2\<lparr>trace := trace s @ ?pre @ [WriteFile ?p (buffer f)]\<rparr>)"
      using run tr by (simp add: uploadDoc_def)
    then show ?thesis using Some files_staged[of w f s]
      by (intro exI[of _ ?pre] exI[of _ "[]"]) simp
  next
    case None
    then have staged_file: "files ?s2 ?p = Some (buffer f)"
      using files_staged[of w f s] by simp
    from None run have run':
      "uploadDoc_try w req s =
           (if mimetype f = pdf_type then bind_try (loader_load w PDFLoader ?p) (uploadDoc_process w ?p)
            else if mimetype f = docx_type then bind_try (loader_load w DocxLoader ?p) (uploadDoc_process w ?p)
            else bind_try (unlinkSync ?p) (\<lambda>_.
              ret \<lparr>status = 400,
                   body = [(''error'', JString ''Invalid file type. Only PDF and DOCX are allowed.'')]\<rparr>)) ?s2"
      by simp
    consider (loaded) k where "uploadDoc_try w req s = bind_try (loader_load w k ?p) (uploadDoc_process w ?p) ?s2"
      | (other) "uploadDoc_try w req s = bind_try (unlinkSync ?p) (\<lambda>_.
              ret \<lparr>status = 400,
                   body = [(''error'', JString ''Invalid file type. Only PDF and DOCX are allowed.'')]\<rparr>) ?s2"
      using run' by (auto split: if_splits)
    then show ?thesis
    proof cases
      case other
      then have "uploadDoc w req s =
          (\<lparr>status = 400, body = [(''error'', JString ''Invalid file type. Only PDF and DOCX are allowed.'')]\<rparr>,
           ?s2\<lparr>files := (files ?s2)(?p := None), trace := trace s @ ?pre @ [WriteFile ?p (buffer f), Unlink ?p]\<rparr>)"
        using staged_file tr by (simp add: uploadDoc_def bind_try_def unlinkSync_def ret_def)
      then show ?thesis
        by (intro exI[of _ ?pre] exI[of _ "[Unlink ?p]"]) simp
    next
      case (loaded k)
      from load_process_cases[OF staged_file, of w k]
      consider (a) e where "uploadDoc_try w req s = (Inl e, ?s2\<lparr>trace := trace ?s2 @ [LoaderLoad k ?p]\<rparr>)"
        | (b) e docs vs where "uploadDoc_try w req s =
              (Inl e, ?s2\<lparr>trace := trace ?s2 @ [LoaderLoad k ?p, FromDocuments docs vs]\<rparr>)"
        | (c) docs vs where "uploadDoc_try w req s =
              (Inr \<lparr>status = 200, body = [(''status'', JString ''success''),
                      (''message'', JString ''Document processed and stored'')]\<rparr>,
               ?s2\<lparr>files := (files ?s2)(?p := None),
                 trace := trace ?s2 @ [LoaderLoad k ?p, FromDocuments docs vs, Unlink ?p]\<rparr>)"
        unfolding loaded by blast
      then show ?thesis
      proof cases
        case a
        then have "uploadDoc w req s =
          (\<lparr>status = 500, body = [(''error'', JString ''Error processing document''),
                      (''details'', JString (message e))]\<rparr>,
           ?s2\<lparr>trace := trace s @ ?pre @ [WriteFile ?p (buffer f), LoaderLoad k ?p]\<rparr>)"
          using tr by (simp add: uploadDoc_def)
        then show ?thesis using staged_file None
          by (intro exI[of _ ?pre] exI[of _ "[LoaderLoad k ?p]"]) simp
      next
        case b
        then have "uploadDoc w req s =
          (\<lparr>status = 500, body = [(''error'', JString ''Error processing document''),
                      (''details'', JString (message e))]\<rparr>,
           ?s2\<lparr>trace := trace s @ ?pre @ [WriteFile ?p (buffer f), LoaderLoad k ?p, FromDocuments docs vs]\<rparr>)"
          using tr by (simp add: uploadDoc_def)
        then show ?thesis using staged_file None
          by (intro exI[of _ ?pre] exI[of _ "[LoaderLoad k ?p, FromDocuments docs vs]"]) simp
      next
        case c
        then have "uploadDoc w req s =
          (\<lparr>status = 200, body = [(''status'', JString ''success''),
                      (''message'', JString ''Document processed and stored'')]\<rparr>,
           ?s2\<lparr>files := (files ?s2)(?p := None),
              trace := trace s @ ?pre @ [WriteFile ?p (buffer f), LoaderLoad k ?p, FromDocuments docs vs, Unlink ?p]\<rparr>)"
          using tr by (simp add: uploadDoc_def)
        then show ?thesis
          by (intro exI[of _ ?pre] exI[of _ "[LoaderLoad k ?p, FromDocuments docs vs, Unlink ?p]"]) simp
      qed
    qed
  qed
qed



text \<open>The name of 300 characters is turned down by the file system of the concrete world.\<close>

lemma demo_long_name_refused:
  "fsRefuses demo_world
     (path_join demo_world (path_join demo_world (dirname demo_world) ''../uploads'')
        (originalname demo_long_name_txt))
   = Some (SystemError ''ENAMETOOLONG: name too long'')"
  by code_simp

text \<open>
  Where the staged file ends up, for every request with a file whose staging path the
  file system accepts: an error exit (500) leaves it on the disk, every other exit has
  deleted it.
\<close>

lemma uploadDoc_error_keeps_staged_file:
  assumes "req_file req = Some f" and "status (fst (uploadDoc w req s)) = 500"
    and "fsRefuses w (path_join w (path_join w (dirname w) ''../uploads'') (originalname f)) = None"
  shows "files (snd (uploadDoc w req s))
           (path_join w (path_join w (dirname w) ''../uploads'') (originalname f)) = Some (buffer f)"
  using uploadDoc_outcome[OF assms(1), of s w] assms(2,3) by auto

lemma uploadDoc_deletes_staged_file_unless_error:
  assumes "req_file req = Some f" and "status (fst (uploadDoc w req s)) \<noteq> 500"
  shows "files (snd (uploadDoc w req s))
           (path_join w (path_join w (dirname w) ''../uploads'') (originalname f)) = None"
  using uploadDoc_outcome[OF assms(1), of s w] assms(2) by auto

section \<open>The claims\<close>

subsection \<open>C1: the staged file on the error exits\<close>

text \<open>
  Claim C1: whenever the uploaded file was written to the staging location, the staged
  file is deleted before \<^verbatim>\<open>uploadDoc\<close> returns, on every exit path, also when loading,
  chunking, embedding or upserting fails.

  The success exit and the rejection of an unsupported type call \<^verbatim>\<open>unlinkSync\<close>; the
  \<^verbatim>\<open>catch\<close> block does not. A file declared as PDF that the loader cannot parse leaves
  the handler with status 500 and the staged file still on the disk.
\<close>

theorem uploadDoc_load_failure_leaves_staged_file:
  "status (fst (uploadDoc demo_world \<lparr>req_file = Some (demo_pdf\<lparr>buffer := []\<rparr>)\<rparr> empty_disk)) = 500 \<and>
   staged_writes (new_events empty_disk
      (snd (uploadDoc demo_world \<lparr>req_file = Some (demo_pdf\<lparr>buffer := []\<rparr>)\<rparr> empty_disk)))
     = [(''/srv/uploads/euler.pdf'', [])] \<and>
   files (snd (uploadDoc demo_world \<lparr>req_file = Some (demo_pdf\<lparr>buffer := []\<rparr>)\<rparr> empty_disk))
     ''/srv/uploads/euler.pdf'' = Some []"
  by (simp add: upload_defs step_defs fs_defs new_events_def demo_defs)

subsection \<open>C2: what a successful ingestion returns\<close>




subsection \<open>C3: the namespace of the store operations\<close>

text \<open>
  Claim C3: the upsert, the similarity search and the raw fallback query all work in the
  one fixed namespace \<^verbatim>\<open>euler-namespace\<close>.

  The upsert and the similarity search go through a vector store built with that
  namespace. The fallback calls \<^verbatim>\<open>query\<close> on the index handle itself, which targets the
  default namespace: for a question whose similarity search finds nothing, the namespaces
  of the calls are, in order, none (index statistics), none (embedding of the question),
  \<^verbatim>\<open>euler-namespace\<close> (similarity search) and the empty default namespace (raw query).
\<close>

theorem questionAnswer_fallback_queries_default_namespace:
  "map store_namespace
     (new_events empty_disk (snd (questionAnswer demo_world demo_question empty_disk)))
     = [None, None, Some ''euler-namespace'', Some []]"
  by (simp add: answer_defs step_defs new_events_def demo_defs handle_defs)

subsection \<open>C4: the fallback query and its results\<close>




subsection \<open>C5: no match on either path\<close>

text \<open>
  Claim C5: when the similarity search and the raw fallback query of a question both
  return no match, \<^verbatim>\<open>questionAnswer\<close> answers with the fixed message and does not call
  the generative model.
\<close>

theorem questionAnswer_no_match_fixed_answer:
  assumes "body_question req = Some q" and "q \<noteq> []"
    and "newEmbeddings w (GoogleGenerativeAIEmbeddings w ''models/embedding-001'') = None"
    and "env w ''PINECONE_INDEX_NAME'' = Some n" and "n \<noteq> []"
    and "describeIndexStats w (pinecone_Index w n) = Inr stats"
    and "fromExistingIndex w (PineconeStore (GoogleGenerativeAIEmbeddings w ''models/embedding-001'')
           (pinecone_Index w n) (Some ''euler-namespace'')) = None"
    and "embedQuery w (GoogleGenerativeAIEmbeddings w ''models/embedding-001'') q = Inr v"
    and "similaritySearch w (PineconeStore (GoogleGenerativeAIEmbeddings w ''models/embedding-001'')
           (pinecone_Index w n) (Some ''euler-namespace'')) q 3 = Inr []"
    and "indexQuery w (pinecone_Index w n)
           \<lparr>q_vector = v, q_topK = 10, q_includeMetadata = True, q_includeValues = True\<rparr> = Inr []"
  shows "fst (questionAnswer w req s) =
           \<lparr>status = 200,
            body = [(''answer'', JString ''Sorry, I couldn't find any relevant documents to answer your question.'')]\<rparr>
         \<and> filter is_generation_call (new_events s (snd (questionAnswer w req s))) = []"
  using assms
  by (simp add: answer_defs step_defs new_events_def no_documents_answer_def)

theorem questionAnswer_no_match_fixed_answer_witness:
  "fst (questionAnswer demo_world demo_question empty_disk) =
           \<lparr>status = 200,
            body = [(''answer'', JString ''Sorry, I couldn't find any relevant documents to answer your question.'')]\<rparr>
         \<and> filter is_generation_call
             (new_events empty_disk (snd (questionAnswer demo_world demo_question empty_disk))) = []"
  by (rule questionAnswer_no_match_fixed_answer
        [where q = "''Where was Euler born?''" and n = "''euler''" and stats = "''{}''" and v = "[1, 0]"])
     (simp_all add: demo_defs handle_defs)

subsection \<open>C6: an unsupported type and the providers\<close>

text \<open>
  Claim C6, as stated: for every uploaded file whose declared MIME type is neither PDF nor
  DOCX, \<^verbatim>\<open>uploadDoc\<close> answers 400 and makes no call to the embedding provider or to the
  store. The file is written to the uploads directory before its type is looked at, so
  a \<^verbatim>\<open>text/plain\<close> file whose name the file system turns down (300 characters) is
  answered 500, by the \<^verbatim>\<open>catch\<close> block.
\<close>

theorem uploadDoc_unsupported_type_long_name_500:
  "mimetype demo_long_name_txt = ''text/plain'' \<and>
   length (originalname demo_long_name_txt) = 300 \<and>
   fst (uploadDoc demo_world \<lparr>req_file = Some demo_long_name_txt\<rparr> empty_disk) =
     \<lparr>status = 500, body = [(''error'', JString ''Error processing document''),
        (''details'', JString ''ENAMETOOLONG: name too long'')]\<rparr>"
proof -
  have "fst (uploadDoc demo_world \<lparr>req_file = Some demo_long_name_txt\<rparr> empty_disk) =
     \<lparr>status = 500, body = [(''error'', JString ''Error processing document''),
        (''details'', JString ''ENAMETOOLONG: name too long'')]\<rparr>"
    using demo_long_name_refused
    by (simp add: uploadDoc_def uploadDoc_try_staged)
  then show ?thesis by (simp add: demo_long_name_txt_def)
qed

text \<open>
  Claim C6, amended: for every uploaded file whose declared MIME type is neither PDF nor
  DOCX, \<^verbatim>\<open>uploadDoc\<close> makes no call to the embedding provider or to the store, and it
  answers 400 when the file system accepts the staging path; when the file system turns
  the staging path down, it answers 500 with the message of that error.
\<close>

theorem uploadDoc_unsupported_type_no_provider_call:
  assumes "req_file req = Some f"
    and "mimetype f \<noteq> ''application/pdf''"
    and "mimetype f \<noteq> ''application/vnd.openxmlformats-officedocument.wordprocessingml.document''"
  shows "filter (\<lambda>e. is_embedding_call e \<or> is_store_call e)
              (new_events s (snd (uploadDoc w req s))) = []
         \<and> fst (uploadDoc w req s) =
             (case fsRefuses w (path_join w (path_join w (dirname w) ''../uploads'') (originalname f)) of
                None \<Rightarrow>
                  \<lparr>status = 400,
                   body = [(''error'', JString ''Invalid file type. Only PDF and DOCX are allowed.'')]\<rparr>
              | Some e \<Rightarrow>
                  \<lparr>status = 500,
                   body = [(''error'', JString ''Error processing document''),
                           (''details'', JString (message e))]\<rparr>)"
  using assms
  by (simp add: upload_defs step_defs fs_defs new_events_def split: option.splits)

theorem uploadDoc_unsupported_type_no_provider_call_witness:
  "filter (\<lambda>e. is_embedding_call e \<or> is_store_call e)
     (new_events empty_disk (snd (uploadDoc demo_world \<lparr>req_file = Some demo_txt\<rparr> empty_disk))) = []
   \<and> fst (uploadDoc demo_world \<lparr>req_file = Some demo_txt\<rparr> empty_disk) =
       \<lparr>status = 400,
        body = [(''error'', JString ''Invalid file type. Only PDF and DOCX are allowed.'')]\<rparr>
   \<and> filter (\<lambda>e. is_embedding_call e \<or> is_store_call e)
       (new_events empty_disk
          (snd (uploadDoc demo_world \<lparr>req_file = Some demo_long_name_txt\<rparr> empty_disk))) = []
   \<and> fst (uploadDoc demo_world \<lparr>req_file = Some demo_long_name_txt\<rparr> empty_disk) =
       \<lparr>status = 500,
        body = [(''error'', JString ''Error processing document''),
                (''details'', JString ''ENAMETOOLONG: name too long'')]\<rparr>"
proof -
  have short: "fsRefuses demo_world
      (path_join demo_world (path_join demo_world (dirname demo_world) ''../uploads'')
         (originalname demo_txt)) = None"
    by (simp add: demo_defs)
  from uploadDoc_unsupported_type_no_provider_call
         [where req = "\<lparr>req_file = Some demo_txt\<rparr>" and f = demo_txt and w = demo_world
            and s = empty_disk]
       uploadDoc_unsupported_type_no_provider_call
         [where req = "\<lparr>req_file = Some demo_long_name_txt\<rparr>" and f = demo_long_name_txt
            and w = demo_world and s = empty_disk]
       short demo_long_name_refused
  show ?thesis by (simp add: demo_txt_def demo_long_name_txt_def)
qed

subsection \<open>C7: staging and validation, in the order of the code\<close>

text \<open>
  Claim C7, as stated: a file with an unsupported declared type is rejected before it is
  written to the staging location, so it is never staged. It is staged: the upload of a
  \<^verbatim>\<open>text/plain\<close> file writes the file into the uploads directory.
\<close>

theorem uploadDoc_unsupported_type_is_staged:
  "mimetype demo_txt = ''text/plain'' \<and>
   staged_writes
     (new_events empty_disk (snd (uploadDoc demo_world \<lparr>req_file = Some demo_txt\<rparr> empty_disk)))
     = [(''/srv/uploads/notes.txt'', [0x68, 0x69])]"
  by (simp add: upload_defs step_defs fs_defs new_events_def demo_defs)

text \<open>
  Claim C7, amended: staging precedes the validation of the MIME type. For every uploaded
  file with an unsupported declared type, \<^verbatim>\<open>uploadDoc\<close> creates the uploads directory when
  it is missing and calls \<^verbatim>\<open>writeFileSync\<close> on the staging path before it looks at the
  type. When the file system accepts the path, the file is staged, then deleted again,
  and the answer is 400; when it turns the path down, the answer is 500. These are all
  the calls of the handler, and no file is at the staging path when it returns.
\<close>

theorem uploadDoc_unsupported_type_staged_then_deleted:
  assumes "req_file req = Some f"
    and "mimetype f \<noteq> ''application/pdf''"
    and "mimetype f \<noteq> ''application/vnd.openxmlformats-officedocument.wordprocessingml.document''"
  shows "new_events s (snd (uploadDoc w req s)) =
           (if existsSync (path_join w (dirname w) ''../uploads'') s then []
            else [Mkdir (path_join w (dirname w) ''../uploads'')]) @
           (case fsRefuses w (path_join w (path_join w (dirname w) ''../uploads'') (originalname f)) of
              None \<Rightarrow>
                [WriteFile (path_join w (path_join w (dirname w) ''../uploads'') (originalname f)) (buffer f),
                 Unlink (path_join w (path_join w (dirname w) ''../uploads'') (originalname f))]
            | Some e \<Rightarrow>
                [WriteFile (path_join w (path_join w (dirname w) ''../uploads'') (originalname f)) (buffer f)])
         \<and> files (snd (uploadDoc w req s))
              (path_join w (path_join w (dirname w) ''../uploads'') (originalname f)) = None
         \<and> status (fst (uploadDoc w req s)) =
             (case fsRefuses w (path_join w (path_join w (dirname w) ''../uploads'') (originalname f)) of
                None \<Rightarrow> 400 | Some e \<Rightarrow> 500)"
  using assms
  by (simp add: upload_defs step_defs fs_defs new_events_def split: option.splits)

theorem uploadDoc_unsupported_type_staged_then_deleted_witness:
  "new_events empty_disk (snd (uploadDoc demo_world \<lparr>req_file = Some demo_txt\<rparr> empty_disk)) =
     [Mkdir ''/srv/uploads'', WriteFile ''/srv/uploads/notes.txt'' [0x68, 0x69],
      Unlink ''/srv/uploads/notes.txt'']
   \<and> files (snd (uploadDoc demo_world \<lparr>req_file = Some demo_txt\<rparr> empty_disk))
        ''/srv/uploads/notes.txt'' = None
   \<and> status (fst (uploadDoc demo_world \<lparr>req_file = Some demo_txt\<rparr> empty_disk)) = 400
   \<and> status (fst (uploadDoc demo_world \<lparr>req_file = Some demo_long_name_txt\<rparr> empty_disk)) = 500"
  using uploadDoc_unsupported_type_staged_then_deleted
    [where req = "\<lparr>req_file = Some demo_txt\<rparr>" and f = demo_txt and w = demo_world and s = empty_disk]
    uploadDoc_unsupported_type_staged_then_deleted
    [where req = "\<lparr>req_file = Some demo_long_name_txt\<rparr>" and f = demo_long_name_txt
       and w = demo_world and s = empty_disk]
    demo_long_name_refused
  by (simp add: demo_defs existsSync_def)

subsection \<open>C8: an empty or missing question\<close>

text \<open>
  Claim C8: for every request whose question is empty or missing, \<^verbatim>\<open>questionAnswer\<close>
  answers 400 and calls no provider: the state, and with it the trace, is unchanged.
\<close>

theorem questionAnswer_empty_question_400:
  assumes "body_question req = None \<or> body_question req = Some []"
  shows "questionAnswer w req s =
           (\<lparr>status = 400, body = [(''error'', JString ''No question provided'')]\<rparr>, s)"
  using assms by (auto simp: answer_defs ret_def)

theorem questionAnswer_empty_question_400_witness:
  "questionAnswer demo_world \<lparr>body_question = Some []\<rparr> empty_disk =
     (\<lparr>status = 400, body = [(''error'', JString ''No question provided'')]\<rparr>, empty_disk)"
  by (rule questionAnswer_empty_question_400) simp

subsection \<open>C9: missing configuration\<close>




subsection \<open>C10: the staging path\<close>

text \<open>
  Claim C10: the staging path is the uploads directory joined with the original file name
  as the client sent it, and nothing else enters it. Every request with a file makes
  exactly one write, of its own content, to that path; two requests whose files have the
  same original name write to the same path, so that after the later one the path holds
  the later content or nothing, never the earlier file.
\<close>

theorem uploadDoc_staging_path:
  assumes "req_file r1 = Some f1" and "req_file r2 = Some f2"
    and "originalname f1 = originalname f2"
  shows "staged_writes (new_events s1 (snd (uploadDoc w r1 s1))) =
           [(path_join w (path_join w (dirname w) ''../uploads'') (originalname f1), buffer f1)]
       \<and> staged_writes (new_events s2 (snd (uploadDoc w r2 s2))) =
           [(path_join w (path_join w (dirname w) ''../uploads'') (originalname f1), buffer f2)]
       \<and> (files (snd (uploadDoc w r2 s2))
             (path_join w (path_join w (dirname w) ''../uploads'') (originalname f1)) = None
          \<or> files (snd (uploadDoc w r2 s2))
             (path_join w (path_join w (dirname w) ''../uploads'') (originalname f1)) = Some (buffer f2))"
proof -
  have writes: "staged_writes (pre @ WriteFile p b # tail) = [(p, b)]"
    if "staged_writes pre = []" "staged_writes tail = []" for pre tail p b
    using that by (induction pre rule: staged_writes.induct) simp_all
  from uploadDoc_outcome[OF assms(1), of s1 w] have first: "staged_writes (new_events s1 (snd (uploadDoc w r1 s1))) =
           [(path_join w (path_join w (dirname w) ''../uploads'') (originalname f1), buffer f1)]"
    using writes by auto
  from uploadDoc_outcome[OF assms(2), of s2 w] assms(3) have second:
    "staged_writes (new_events s2 (snd (uploadDoc w r2 s2))) =
           [(path_join w (path_join w (dirname w) ''../uploads'') (originalname f1), buffer f2)]"
    "files (snd (uploadDoc w r2 s2))
             (path_join w (path_join w (dirname w) ''../uploads'') (originalname f1)) = None
          \<or> files (snd (uploadDoc w r2 s2))
             (path_join w (path_join w (dirname w) ''../uploads'') (originalname f1)) = Some (buffer f2)"
    using writes by auto
  from first second show ?thesis by blast
qed

theorem uploadDoc_staging_path_witness:
  "staged_writes (new_events empty_disk
      (snd (uploadDoc demo_world \<lparr>req_file = Some (demo_pdf\<lparr>buffer := []\<rparr>)\<rparr> empty_disk))) =
     [(''/srv/uploads/euler.pdf'', [])]
   \<and> files (snd (uploadDoc demo_world \<lparr>req_file = Some (demo_pdf\<lparr>buffer := []\<rparr>)\<rparr> empty_disk))
       ''/srv/uploads/euler.pdf'' = Some []
   \<and> staged_writes (new_events
        (snd (uploadDoc demo_world \<lparr>req_file = Some (demo_pdf\<lparr>buffer := []\<rparr>)\<rparr> empty_disk))
        (snd (uploadDoc demo_world \<lparr>req_file = Some (demo_pdf\<lparr>mimetype := ''text/plain''\<rparr>)\<rparr>
           (snd (uploadDoc demo_world \<lparr>req_file = Some (demo_pdf\<lparr>buffer := []\<rparr>)\<rparr> empty_disk))))) =
     [(''/srv/uploads/euler.pdf'', [0x25, 0x50, 0x44, 0x46])]
   \<and> files (snd (uploadDoc demo_world \<lparr>req_file = Some (demo_pdf\<lparr>mimetype := ''text/plain''\<rparr>)\<rparr>
           (snd (uploadDoc demo_world \<lparr>req_file = Some (demo_pdf\<lparr>buffer := []\<rparr>)\<rparr> empty_disk))))
       ''/srv/uploads/euler.pdf'' = None"
proof -
  have leaked: "files (snd (uploadDoc demo_world \<lparr>req_file = Some (demo_pdf\<lparr>buffer := []\<rparr>)\<rparr> empty_disk))
       ''/srv/uploads/euler.pdf'' = Some []"
    by (simp add: upload_defs step_defs fs_defs demo_defs)
  have gone: "files (snd (uploadDoc demo_world \<lparr>req_file = Some (demo_pdf\<lparr>mimetype := ''text/plain''\<rparr>)\<rparr>
           (snd (uploadDoc demo_world \<lparr>req_file = Some (demo_pdf\<lparr>buffer := []\<rparr>)\<rparr> empty_disk))))
       ''/srv/uploads/euler.pdf'' = None"
    by (simp add: upload_defs step_defs fs_defs demo_defs)
  from uploadDoc_staging_path
    [where ?r1.0 = "\<lparr>req_file = Some (demo_pdf\<lparr>buffer := []\<rparr>)\<rparr>" and ?f1.0 = "demo_pdf\<lparr>buffer := []\<rparr>"
       and ?r2.0 = "\<lparr>req_file = Some (demo_pdf\<lparr>mimetype := ''text/plain''\<rparr>)\<rparr>"
       and ?f2.0 = "demo_pdf\<lparr>mimetype := ''text/plain''\<rparr>" and w = demo_world and ?s1.0 = empty_disk
       and ?s2.0 = "snd (uploadDoc demo_world \<lparr>req_file = Some (demo_pdf\<lparr>buffer := []\<rparr>)\<rparr> empty_disk)"]
    leaked gone
  show ?thesis by (simp add: demo_pdf_def demo_world_def demo_world_of_def demo_join_def)
qed


end
